theory Spec2Isabelle
  imports Complex_Main "HOL-Library.Product_Lexorder" "HOL-Library.Multiset"
begin

section \<open>Matrix factorisation by gradient descent (Calepins/Projet-Optimisation.ipynb)\<close>

text \<open>
  The notebook is an exercise sheet. Three functions are declared in it:
  \<^verbatim>\<open>predictedRating\<close>, \<^verbatim>\<open>computeMSE\<close> and \<^verbatim>\<open>GD\<close>. The first two consist of a
  docstring followed by the comment \<^verbatim>\<open>#### TO DO\<close>; \<^verbatim>\<open>GD\<close> is written out except for
  the two blocks of its loop, which hold the same comment.

  A floating-point value is modelled as the real number it denotes. The one
  floating-point operation that the written code causes is the addition by which scipy
  combines the entries given for one position of the sparse matrix; it rounds, so it is
  not the addition of the reals, and it is a parameter of the model (\<open>fadd\<close>).
\<close>

subsection \<open>Data\<close>

text \<open>A rating is the tuple \<^verbatim>\<open>(UserID, MovieID, Rating)\<close> that \<^verbatim>\<open>parseRating\<close> builds.\<close>

type_synonym rating = "int \<times> int \<times> real"

type_synonym matrix = "real list list"

text \<open>
  \<open>ValueError\<close> is the exception scipy and numpy raise. The source defines no exception
  class and has no \<^verbatim>\<open>raise\<close>; \<open>EmptyDatasetError\<close> and \<open>ConfigurationError\<close> are
  the names of the specification's error taxonomy, listed so that statements can say
  that a call does not end in them.
\<close>

datatype error = ValueError | EmptyDatasetError | ConfigurationError

subsection \<open>The two evaluation routines, as the source has them\<close>

text \<open>
  \<^verbatim>\<open>
  def predictedRating(x, P, Q):
      """ This function computes predicted rating ... Returns: predicted rating: l """
      #### TO DO
  \<close>
  A Python function whose body is a docstring returns \<^verbatim>\<open>None\<close>; \<open>None\<close> below is that
  value.
\<close>

definition predictedRating :: "rating \<Rightarrow> matrix \<Rightarrow> matrix \<Rightarrow> real option" where
  "predictedRating x Pm Qm = None"

text \<open>
  \<^verbatim>\<open>
  def computeMSE(rdd, P, Q):
      """ This function computes Mean Square Error (MSE) ... Returns: mse: mean square error """
      ##### TO DO
  \<close>
\<close>

definition computeMSE :: "rating list \<Rightarrow> matrix \<Rightarrow> matrix \<Rightarrow> real option" where
  "computeMSE rdd Pm Qm = None"

subsection \<open>The sparse matrix of scipy\<close>

text \<open>
  \<^verbatim>\<open>sparse.csr_matrix((data, (row, col)))\<close> builds the matrix through the coordinate
  format. With no shape given, the shape is inferred from the largest indices, and empty
  index arrays are refused with a \<^verbatim>\<open>ValueError\<close> (the dimensions cannot be inferred); so
  are negative indices. The conversion to CSR sorts the entries by row and, within a row,
  by column, and then sums the entries given for one position ("duplicate entries are
  summed together", says the class's documentation): it adds them one to the next, from
  left to right, in 64-bit floating point. The stored entries are left in row-major
  order, the columns of a row ascending. A position whose entries sum to zero stays
  stored, as an explicit zero; a position given once keeps its value as it is.

  Two things are parameters of the model. \<open>fadd\<close> is the floating-point addition.
  \<open>srt\<close> is the order in which the sort leaves the entries it is given: the sort
  compares positions only and need not keep the entries of one position in the order of
  the input, so nothing but a rearrangement of the input is assumed of it, and that only
  where a statement needs it.

  The model keeps the shape and the stored entries in their order; the index pointer
  layout of CSR plays no part in what \<^verbatim>\<open>GD\<close> reads.
\<close>

type_synonym entry = "(int \<times> int) \<times> real"

record csr =
  shape :: "int \<times> int"
  entries :: "entry list"

text \<open>
  \<open>sum_duplicates\<close> takes the entries one after the other, in the order it is given
  them, and puts each at its place in the row-major order: \<open>add_entry\<close> adds the value
  to the one stored for the position (stored value first, new value second), or stores it
  if the position is new.
\<close>

fun add_entry :: "(real \<Rightarrow> real \<Rightarrow> real) \<Rightarrow> int \<times> int \<Rightarrow> real \<Rightarrow> entry list \<Rightarrow> entry list" where
  "add_entry fadd k v [] = [(k, v)]"
| "add_entry fadd k v ((k', v') # es) =
     (if k = k' then (k', fadd v' v) # es
      else if k < k' then (k, v) # (k', v') # es
      else (k', v') # add_entry fadd k v es)"

definition sum_duplicates :: "(real \<Rightarrow> real \<Rightarrow> real) \<Rightarrow> entry list \<Rightarrow> entry list" where
  "sum_duplicates fadd es = fold (\<lambda>(k, v). add_entry fadd k v) es []"

definition csr_matrix ::
  "(real \<Rightarrow> real \<Rightarrow> real) \<Rightarrow> (entry list \<Rightarrow> entry list) \<Rightarrow>
   real list \<Rightarrow> int list \<Rightarrow> int list \<Rightarrow> error + csr" where
  "csr_matrix fadd srt data row col =
     (if row = [] \<or> col = [] then Inl ValueError
      else if Min (set row) < 0 \<or> Min (set col) < 0 then Inl ValueError
      else Inr \<lparr>shape = (Max (set row) + 1, Max (set col) + 1),
                entries = sum_duplicates fadd (srt (zip (zip row col) data))\<rparr>)"

text \<open>
  \<^verbatim>\<open>R.nonzero()\<close> converts to the coordinate format, keeps the stored entries whose value
  is not zero (\<^verbatim>\<open>A.data != 0\<close>) and returns their row and their column indices.
\<close>

definition nonzero :: "csr \<Rightarrow> int list \<times> int list" where
  "nonzero R =
     (let nz = filter (\<lambda>(k, v). v \<noteq> 0) (entries R)
      in (map (\<lambda>(k, v). fst k) nz, map (\<lambda>(k, v). snd k) nz))"

subsection \<open>The random generator of numpy\<close>

text \<open>
  \<^verbatim>\<open>np.random.rand(d0, d1)\<close> draws \<open>d0 * d1\<close> numbers from numpy's global generator and
  fills the array row by row; a negative dimension is a \<^verbatim>\<open>ValueError\<close>, a zero one an
  empty array. The generator's state is the sequence of numbers it will deliver; the call
  returns the state left behind.
\<close>

type_synonym rng = "nat \<Rightarrow> real"

definition np_random_rand :: "int \<Rightarrow> int \<Rightarrow> rng \<Rightarrow> error + (matrix \<times> rng)" where
  "np_random_rand d0 d1 g =
     (if d0 < 0 \<or> d1 < 0 then Inl ValueError
      else Inr (map (\<lambda>i. map (\<lambda>k. g (i * nat d1 + k)) [0..<nat d1]) [0..<nat d0],
                \<lambda>n. g (nat d0 * nat d1 + n)))"

subsection \<open>The trainer\<close>

text \<open>
  \<^verbatim>\<open>
  row=[]; col=[]; data=[]
  for part in trainRDD.collect():
      row.append(part[0]-1)
      col.append(part[1]-1)
      data.append(part[2])
  R=sparse.csr_matrix((data, (row, col)))
  \<close>
\<close>

definition pos :: "rating \<Rightarrow> int \<times> int" where
  "pos part = (fst part - 1, fst (snd part) - 1)"

definition build_R ::
  "(real \<Rightarrow> real \<Rightarrow> real) \<Rightarrow> (entry list \<Rightarrow> entry list) \<Rightarrow> rating list \<Rightarrow> error + csr" where
  "build_R fadd srt trainRDD =
     csr_matrix fadd srt (map (\<lambda>part. snd (snd part)) trainRDD)
       (map (\<lambda>part. fst part - 1) trainRDD)
       (map (\<lambda>part. fst (snd part) - 1) trainRDD)"

text \<open>
  \<^verbatim>\<open>
  M,N = R.shape
  P = np.random.rand(M,K)
  Q = np.random.rand(N,K)
  \<close>
\<close>

definition init_factors :: "rng \<Rightarrow> csr \<Rightarrow> int \<Rightarrow> error + (matrix \<times> matrix)" where
  "init_factors g R K =
     (case np_random_rand (fst (shape R)) K g of
        Inl e \<Rightarrow> Inl e
      | Inr (P0, g') \<Rightarrow>
          (case np_random_rand (snd (shape R)) K g' of
             Inl e \<Rightarrow> Inl e
           | Inr (Q0, g'') \<Rightarrow> Inr (P0, Q0)))"

text \<open>
  \<^verbatim>\<open>
  for epoch in range(MAXITER):
      for i,j in zip(I,J):
          # Mise a jour de P[i,:] et Q[j,:] par descente de gradient a pas fixe
          #### TO DO
      # Calcul de l'erreur MSE courante, et sauvegarde dans le tableau mse
      #### TO DO
  \<close>
  The two open blocks are the parameters \<open>upd\<close> and \<open>sav\<close>: whatever is written there
  runs at these places, on the state the loop carries. A negative \<^verbatim>\<open>MAXITER\<close> gives an
  empty range.
\<close>

definition epoch_loop ::
  "(int \<Rightarrow> int \<Rightarrow> 's \<Rightarrow> 's) \<Rightarrow> (nat \<Rightarrow> 's \<Rightarrow> 's) \<Rightarrow> int list \<Rightarrow> int list \<Rightarrow> int \<Rightarrow> 's \<Rightarrow> 's" where
  "epoch_loop upd sav I J MAXITER s =
     fold (\<lambda>epoch s. sav epoch (fold (\<lambda>(i, j). upd i j) (zip I J) s)) [0..<nat MAXITER] s"

text \<open>
  The state of the loop is what \<^verbatim>\<open>GD\<close> returns: \<^verbatim>\<open>P\<close>, \<^verbatim>\<open>Q\<close> and the list \<^verbatim>\<open>mse\<close> of
  \<^verbatim>\<open>[epoch, value]\<close> entries.
\<close>

type_synonym 'm state = "matrix \<times> matrix \<times> (nat \<times> 'm) list"

text \<open>
  \<^verbatim>\<open>def GD(trainRDD, K=10, MAXITER=50, GAMMA=0.001, LAMBDA=0.05)\<close>. Beside the arguments
  of the source the model takes \<open>fadd\<close> and \<open>srt\<close>, the two parameters of the sparse
  matrix, \<open>g\<close>, the state of numpy's generator at the call, and the three parts the
  source leaves open: \<open>cmse\<close> for the body of \<^verbatim>\<open>computeMSE\<close>, \<open>upd\<close>
  for the update block, which sees \<^verbatim>\<open>R\<close>, \<^verbatim>\<open>GAMMA\<close>, \<^verbatim>\<open>LAMBDA\<close>, \<^verbatim>\<open>i\<close> and \<^verbatim>\<open>j\<close>,
  and \<open>sav\<close> for the recording block, which sees \<^verbatim>\<open>trainRDD\<close> and \<^verbatim>\<open>epoch\<close>. The
  \<^verbatim>\<open>print\<close> of the source is left out.
\<close>

definition GD ::
  "(real \<Rightarrow> real \<Rightarrow> real) \<Rightarrow> (entry list \<Rightarrow> entry list) \<Rightarrow>
   (rating list \<Rightarrow> matrix \<Rightarrow> matrix \<Rightarrow> 'm) \<Rightarrow>
   (csr \<Rightarrow> real \<Rightarrow> real \<Rightarrow> int \<Rightarrow> int \<Rightarrow> 'm state \<Rightarrow> 'm state) \<Rightarrow>
   (rating list \<Rightarrow> nat \<Rightarrow> 'm state \<Rightarrow> 'm state) \<Rightarrow>
   rng \<Rightarrow> rating list \<Rightarrow> int \<Rightarrow> int \<Rightarrow> real \<Rightarrow> real \<Rightarrow> error + 'm state" where
  "GD fadd srt cmse upd sav g trainRDD K MAXITER GAMMA LAMBDA =
     (case build_R fadd srt trainRDD of
        Inl e \<Rightarrow> Inl e
      | Inr R \<Rightarrow>
          (case init_factors g R K of
             Inl e \<Rightarrow> Inl e
           | Inr (P0, Q0) \<Rightarrow>
               Inr (epoch_loop (upd R GAMMA LAMBDA) (sav trainRDD)
                      (fst (nonzero R)) (snd (nonzero R)) MAXITER
                      (P0, Q0, [(0, cmse trainRDD P0 Q0)]))))"

text \<open>
  The two open blocks as the source has them: a comment, no statement. (Python refuses a
  loop whose body is only a comment, so the cell does not run as it stands; the nearest
  program that runs does nothing at these two places.)
\<close>

definition todo_update :: "csr \<Rightarrow> real \<Rightarrow> real \<Rightarrow> int \<Rightarrow> int \<Rightarrow> 'm state \<Rightarrow> 'm state" where
  "todo_update R GAMMA LAMBDA i j s = s"

definition todo_record :: "rating list \<Rightarrow> nat \<Rightarrow> 'm state \<Rightarrow> 'm state" where
  "todo_record trainRDD epoch s = s"

subsection \<open>Notions used in the statements\<close>

text \<open>
  The executions of the two blocks of the loop, in the order in which they happen:
  \<open>Visit i j\<close> is one execution of the update block, \<open>Record epoch\<close> one of the
  recording block. \<open>run_event\<close> executes one of them, \<open>schedule\<close> is the sequence for
  a list of index pairs and an iteration count.
\<close>

datatype event = Visit int int | Record nat

fun run_event :: "(int \<Rightarrow> int \<Rightarrow> 's \<Rightarrow> 's) \<Rightarrow> (nat \<Rightarrow> 's \<Rightarrow> 's) \<Rightarrow> event \<Rightarrow> 's \<Rightarrow> 's" where
  "run_event upd sav (Visit i j) s = upd i j s"
| "run_event upd sav (Record epoch) s = sav epoch s"

definition schedule :: "(int \<times> int) list \<Rightarrow> int \<Rightarrow> event list" where
  "schedule IJ MAXITER =
     concat (map (\<lambda>epoch. map (\<lambda>(i, j). Visit i j) IJ @ [Record epoch]) [0..<nat MAXITER])"

text \<open>
  Two blocks that write down their own execution and do nothing else: with them in the
  open places, the loop returns the list of what it executed.
\<close>

definition log_update :: "int \<Rightarrow> int \<Rightarrow> event list \<Rightarrow> event list" where
  "log_update i j tr = tr @ [Visit i j]"

definition log_record :: "nat \<Rightarrow> event list \<Rightarrow> event list" where
  "log_record epoch tr = tr @ [Record epoch]"

text \<open>
  The ratings a collection gives for one position of \<^verbatim>\<open>R\<close>, in the order of the
  collection, and the result of adding a list of values from left to right.
\<close>

definition ratings_at :: "rating list \<Rightarrow> int \<times> int \<Rightarrow> real list" where
  "ratings_at trainRDD k = map (\<lambda>part. snd (snd part)) (filter (\<lambda>part. pos part = k) trainRDD)"

fun float_sum :: "(real \<Rightarrow> real \<Rightarrow> real) \<Rightarrow> real list \<Rightarrow> real" where
  "float_sum fadd [] = 0"
| "float_sum fadd (v # vs) = foldl fadd v vs"

text \<open>
  Concrete inputs of the closed statements. Their collections give at most one rating
  for a position, or ratings that are small whole numbers, whose floating-point sum is
  the exact sum: there \<open>fadd\<close> is \<open>(+)\<close>. For \<open>srt\<close> they take the sort that keeps the
  order of the input, \<open>id\<close>. The generator states follow.
\<close>

definition rng_half :: rng where
  "rng_half n = 1 / 2"

definition rng_quarter :: rng where
  "rng_quarter n = 1 / 4"

definition rng_half_then_quarter :: rng where
  "rng_half_then_quarter n = (if n < 2 then 1 / 2 else 1 / 4)"

section \<open>Auxiliary facts\<close>

subsection \<open>Summing the entries of one position\<close>

lemma add_entry_keys: "fst ` set (add_entry fadd k v es) = insert k (fst ` set es)"
proof (induction es)
  case Nil
  then show ?case by simp
next
  case (Cons e es)
  obtain k' v' where e: "e = (k', v')" by (cases e)
  show ?case using Cons by (auto simp: e)
qed

lemma add_entry_sorted:
  "sorted_wrt (<) (map fst es) \<Longrightarrow> sorted_wrt (<) (map fst (add_entry fadd k v es))"
proof (induction es)
  case Nil
  then show ?case by simp
next
  case (Cons e es)
  obtain k' v' where e: "e = (k', v')" by (cases e)
  have keys: "fst ` set (add_entry fadd k v es) = insert k (fst ` set es)" by (rule add_entry_keys)
  show ?case
  proof (cases "k = k'")
    case True
    then show ?thesis using Cons.prems by (simp add: e)
  next
    case False
    show ?thesis
    proof (cases "k < k'")
      case True
      then show ?thesis using Cons.prems False by (auto simp: e)
    next
      case nlt: False
      have "k' < k" using False nlt by auto
      moreover have "sorted_wrt (<) (map fst (add_entry fadd k v es))" using Cons by simp
      moreover have "\<forall>x\<in>fst ` set es. k' < x" using Cons.prems by (auto simp: e)
      ultimately show ?thesis using False nlt keys by (auto simp: e)
    qed
  qed
qed

lemma add_entry_map_of:
  "sorted_wrt (<) (map fst es) \<Longrightarrow>
   map_of (add_entry fadd k v es) x =
     (if x = k then Some (case map_of es k of None \<Rightarrow> v | Some w \<Rightarrow> fadd w v) else map_of es x)"
proof (induction es)
  case Nil
  then show ?case by simp
next
  case (Cons e es)
  obtain k' v' where e: "e = (k', v')" by (cases e)
  show ?case
  proof (cases "k = k'")
    case True
    then show ?thesis by (simp add: e)
  next
    case False
    show ?thesis
    proof (cases "k < k'")
      case True
      have "\<forall>x\<in>fst ` set es. k' < x" using Cons.prems by (auto simp: e)
      then have "k \<notin> fst ` set es" using True by force
      then have "map_of es k = None" by (simp add: map_of_eq_None_iff)
      then show ?thesis using True False by (simp add: e)
    next
      case nlt: False
      have "map_of (add_entry fadd k v es) x =
        (if x = k then Some (case map_of es k of None \<Rightarrow> v | Some w \<Rightarrow> fadd w v) else map_of es x)"
        using Cons by simp
      then show ?thesis using False nlt by (auto simp: e)
    qed
  qed
qed

lemma fold_add_entry_sorted:
  "sorted_wrt (<) (map fst acc) \<Longrightarrow>
   sorted_wrt (<) (map fst (fold (\<lambda>(k, v). add_entry fadd k v) es acc))"
proof (induction es arbitrary: acc)
  case Nil
  then show ?case by simp
next
  case (Cons e es)
  obtain k v where e: "e = (k, v)" by (cases e)
  show ?case using Cons.IH [OF add_entry_sorted [OF Cons.prems, of fadd k v]] by (simp add: e)
qed

lemma fold_add_entry_map_of:
  "sorted_wrt (<) (map fst acc) \<Longrightarrow>
   map_of (fold (\<lambda>(k, v). add_entry fadd k v) es acc) x =
     (case map_of acc x of
        Some w \<Rightarrow> Some (foldl fadd w (map snd (filter (\<lambda>e. fst e = x) es)))
      | None \<Rightarrow>
          (case map snd (filter (\<lambda>e. fst e = x) es) of
             [] \<Rightarrow> None
           | v # vs \<Rightarrow> Some (foldl fadd v vs)))"
proof (induction es arbitrary: acc)
  case Nil
  then show ?case by (simp split: option.splits)
next
  case (Cons e es)
  obtain k v where e: "e = (k, v)" by (cases e)
  have s: "sorted_wrt (<) (map fst (add_entry fadd k v acc))" by (rule add_entry_sorted [OF Cons.prems])
  show ?case
    using Cons.IH [OF s] add_entry_map_of [OF Cons.prems, of fadd k v x]
    by (auto simp: e split: option.splits)
qed

lemma sum_duplicates_sorted: "sorted_wrt (<) (map fst (sum_duplicates fadd es))"
  unfolding sum_duplicates_def by (rule fold_add_entry_sorted) simp

lemma sum_duplicates_map_of:
  "map_of (sum_duplicates fadd es) x =
     (if map snd (filter (\<lambda>e. fst e = x) es) = [] then None
      else Some (float_sum fadd (map snd (filter (\<lambda>e. fst e = x) es))))"
  unfolding sum_duplicates_def
  by (simp add: fold_add_entry_map_of split: list.splits)

lemma sum_duplicates_keys: "fst ` set (sum_duplicates fadd es) = fst ` set es"
proof -
  have d: "distinct (map fst (sum_duplicates fadd es))"
    using sum_duplicates_sorted [of fadd es] by (simp add: strict_sorted_iff)
  have "k \<in> fst ` set (sum_duplicates fadd es) \<longleftrightarrow> k \<in> fst ` set es" for k
  proof -
    have "k \<in> fst ` set (sum_duplicates fadd es) \<longleftrightarrow> map_of (sum_duplicates fadd es) k \<noteq> None"
      by (simp add: map_of_eq_None_iff)
    also have "\<dots> \<longleftrightarrow> filter (\<lambda>e. fst e = k) es \<noteq> []"
      by (simp add: sum_duplicates_map_of)
    also have "\<dots> \<longleftrightarrow> k \<in> fst ` set es"
      by (auto simp: filter_empty_conv)
    finally show ?thesis .
  qed
  then show ?thesis by blast
qed


subsection \<open>The matrix built from a collection\<close>

lemma zip3_map: "zip (zip (map f xs) (map g xs)) (map h xs) = map (\<lambda>x. ((f x, g x), h x)) xs"
  by (induction xs) simp_all

lemma Min_le_Max_list: "xs \<noteq> [] \<Longrightarrow> Min (set xs) \<le> (Max (set xs) :: int)"
proof -
  assume "xs \<noteq> []"
  then obtain x where x: "x \<in> set xs" by (cases xs) auto
  have "Min (set xs) \<le> x" using x by simp
  also have "x \<le> Max (set xs)" using x by simp
  finally show ?thesis .
qed

lemma build_R_empty: "build_R fadd srt [] = Inl ValueError"
  by (simp add: build_R_def csr_matrix_def)

lemma build_R_entries:
  assumes "build_R fadd srt trainRDD = Inr R"
  shows "entries R = sum_duplicates fadd (srt (map (\<lambda>part. (pos part, snd (snd part))) trainRDD))"
proof -
  have "zip (zip (map (\<lambda>part. fst part - 1) trainRDD) (map (\<lambda>part. fst (snd part) - 1) trainRDD))
          (map (\<lambda>part. snd (snd part)) trainRDD)
        = map (\<lambda>part. (pos part, snd (snd part))) trainRDD"
    by (simp add: zip3_map pos_def)
  then show ?thesis
    using assms by (auto simp: build_R_def csr_matrix_def split: if_splits)
qed

lemma build_R_shape:
  assumes "build_R fadd srt trainRDD = Inr R"
  shows "shape R = (Max ((\<lambda>part. fst part - 1) ` set trainRDD) + 1,
                    Max ((\<lambda>part. fst (snd part) - 1) ` set trainRDD) + 1)"
  using assms by (auto simp: build_R_def csr_matrix_def split: if_splits)

lemma build_R_shape_pos:
  assumes "build_R fadd srt trainRDD = Inr R"
  shows "0 < fst (shape R) \<and> 0 < snd (shape R)"
proof -
  have ne: "trainRDD \<noteq> []" using assms by (auto simp: build_R_def csr_matrix_def split: if_splits)
  have a: "\<not> Min (set (map (\<lambda>part. fst part - 1) trainRDD)) < 0"
    and b: "\<not> Min (set (map (\<lambda>part. fst (snd part) - 1) trainRDD)) < 0"
    using assms by (auto simp: build_R_def csr_matrix_def split: if_splits)
  have "Min (set (map (\<lambda>part. fst part - 1) trainRDD)) \<le> Max (set (map (\<lambda>part. fst part - 1) trainRDD))"
    using ne by (intro Min_le_Max_list) simp
  moreover have "Min (set (map (\<lambda>part. fst (snd part) - 1) trainRDD))
      \<le> Max (set (map (\<lambda>part. fst (snd part) - 1) trainRDD))"
    using ne by (intro Min_le_Max_list) simp
  ultimately show ?thesis using a b by (simp add: build_R_shape [OF assms])
qed

lemma build_R_sorted:
  assumes "build_R fadd srt trainRDD = Inr R"
  shows "sorted_wrt (<) (map fst (entries R))"
  by (simp add: build_R_entries [OF assms] sum_duplicates_sorted)

lemma build_R_distinct:
  assumes "build_R fadd srt trainRDD = Inr R"
  shows "distinct (map fst (entries R))"
  using build_R_sorted [OF assms] by (simp add: strict_sorted_iff)

lemma build_R_keys:
  assumes "build_R fadd srt trainRDD = Inr R" and "\<forall>es. mset (srt es) = mset es"
  shows "fst ` set (entries R) = pos ` set trainRDD"
proof -
  have "set (srt (map (\<lambda>part. (pos part, snd (snd part))) trainRDD))
        = set (map (\<lambda>part. (pos part, snd (snd part))) trainRDD)"
    by (rule mset_eq_setD) (simp add: assms(2))
  then have "fst ` set (entries R) = fst ` set (map (\<lambda>part. (pos part, snd (snd part))) trainRDD)"
    by (simp add: build_R_entries [OF assms(1)] sum_duplicates_keys del: set_map)
  also have "\<dots> = pos ` set trainRDD" by force
  finally show ?thesis .
qed

lemma values_of_entries:
  "map snd (filter (\<lambda>e. fst e = k) (map (\<lambda>part. (pos part, snd (snd part))) trainRDD))
   = ratings_at trainRDD k"
  by (simp add: ratings_at_def filter_map comp_def)

lemma build_R_value:
  assumes "build_R fadd srt trainRDD = Inr R" and "\<forall>es. mset (srt es) = mset es"
    and "k \<in> pos ` set trainRDD"
  shows "\<exists>vs. mset vs = mset (ratings_at trainRDD k) \<and>
              map_of (entries R) k = Some (float_sum fadd vs)"
proof -
  define es where "es = map (\<lambda>part. (pos part, snd (snd part))) trainRDD"
  define vs where "vs = map snd (filter (\<lambda>e. fst e = k) (srt es))"
  have "mset vs = image_mset snd (filter_mset (\<lambda>e. fst e = k) (mset (srt es)))"
    by (simp add: vs_def)
  also have "\<dots> = image_mset snd (filter_mset (\<lambda>e. fst e = k) (mset es))"
    using assms(2) by simp
  also have "\<dots> = mset (map snd (filter (\<lambda>e. fst e = k) es))" by simp
  also have "\<dots> = mset (ratings_at trainRDD k)" by (simp only: es_def values_of_entries)
  finally have m: "mset vs = mset (ratings_at trainRDD k)" .
  have "ratings_at trainRDD k \<noteq> []"
    using assms(3) by (auto simp: ratings_at_def filter_empty_conv)
  then have "vs \<noteq> []" using m by auto
  then have "map_of (entries R) k = Some (float_sum fadd vs)"
    by (simp add: build_R_entries [OF assms(1)] sum_duplicates_map_of es_def [symmetric] vs_def [symmetric])
  then show ?thesis using m by blast
qed

lemma build_R_single:
  assumes "build_R fadd srt trainRDD = Inr R" and "\<forall>es. mset (srt es) = mset es"
    and "ratings_at trainRDD k = [r]"
  shows "map_of (entries R) k = Some r"
proof -
  have "k \<in> pos ` set trainRDD"
  proof (rule ccontr)
    assume "k \<notin> pos ` set trainRDD"
    then have "filter (\<lambda>part. pos part = k) trainRDD = []" by (auto simp: filter_empty_conv)
    then show False using assms(3) by (simp add: ratings_at_def)
  qed
  then obtain vs where vs: "mset vs = mset (ratings_at trainRDD k)"
    and v: "map_of (entries R) k = Some (float_sum fadd vs)"
    using build_R_value [OF assms(1,2)] by blast
  have "vs = [r]" using vs assms(3) by simp
  then show ?thesis using v by simp
qed

subsection \<open>The pairs the loop ranges over\<close>

lemma nonzero_zip:
  "zip (fst (nonzero R)) (snd (nonzero R)) = map fst (filter (\<lambda>(k, v). v \<noteq> 0) (entries R))"
proof -
  have "zip (map (\<lambda>(k, v). fst k) es) (map (\<lambda>(k, v). snd k) es) = map fst es" for es :: "entry list"
    by (induction es) auto
  then show ?thesis by (simp add: nonzero_def Let_def)
qed

lemma visited_sorted:
  assumes "build_R fadd srt trainRDD = Inr R"
  shows "sorted_wrt (<) (zip (fst (nonzero R)) (snd (nonzero R)))"
  using build_R_sorted [OF assms]
  by (simp add: nonzero_zip sorted_wrt_map sorted_wrt_filter)

lemma row_major_explicit:
  "sorted_wrt (<) (xs :: (int \<times> int) list) \<Longrightarrow>
   sorted_wrt (\<lambda>(i, j) (i', j'). i < i' \<or> i = i' \<and> j < j') xs"
  by (erule sorted_wrt_mono_rel [rotated]) (auto simp: less_prod_def)

lemma visited_set:
  "set (zip (fst (nonzero R)) (snd (nonzero R))) = {k. \<exists>v. (k, v) \<in> set (entries R) \<and> v \<noteq> 0}"
  unfolding nonzero_zip by force

lemma visited_stored_zero:
  assumes "distinct (map fst (entries R))" and "map_of (entries R) k = Some 0"
  shows "k \<notin> set (zip (fst (nonzero R)) (snd (nonzero R)))"
proof
  assume "k \<in> set (zip (fst (nonzero R)) (snd (nonzero R)))"
  then obtain v where v: "(k, v) \<in> set (entries R)" "v \<noteq> 0" by (auto simp: visited_set)
  then have "map_of (entries R) k = Some v" using assms(1) by simp
  then show False using assms(2) v(2) by simp
qed

subsection \<open>The order of the loop\<close>

lemma fold_visits:
  "fold (\<lambda>(i, j). upd i j) IJ s = fold (run_event upd sav) (map (\<lambda>(i, j). Visit i j) IJ) s"
  by (induction IJ arbitrary: s) auto

lemma epoch_loop_schedule:
  "epoch_loop upd sav I J MAXITER s = fold (run_event upd sav) (schedule (zip I J) MAXITER) s"
proof -
  have "fold (\<lambda>epoch s. sav epoch (fold (\<lambda>(i, j). upd i j) IJ s)) [0..<n] s
        = fold (run_event upd sav) (concat (map (\<lambda>epoch. map (\<lambda>(i, j). Visit i j) IJ @ [Record epoch]) [0..<n])) s"
    for n IJ
  proof (induction n)
    case 0
    then show ?case by simp
  next
    case (Suc n)
    then show ?case by (simp add: fold_visits [of upd _ _ sav])
  qed
  then show ?thesis by (simp add: epoch_loop_def schedule_def)
qed

lemma schedule_visits:
  "Visit i j \<in> set (schedule IJ MAXITER) \<longleftrightarrow> (i, j) \<in> set IJ \<and> 0 < MAXITER"
proof -
  have "0 < MAXITER \<Longrightarrow> \<exists>x. x < nat MAXITER" by (rule exI [of _ 0]) simp
  then show ?thesis by (auto simp: schedule_def)
qed

lemma GD_runs_schedule:
  assumes "build_R fadd srt trainRDD = Inr R" and "init_factors g R K = Inr (P0, Q0)"
  shows "GD fadd srt cmse upd sav g trainRDD K MAXITER GAMMA LAMBDA =
           Inr (fold (run_event (upd R GAMMA LAMBDA) (sav trainRDD))
                  (schedule (zip (fst (nonzero R)) (snd (nonzero R))) MAXITER)
                  (P0, Q0, [(0, cmse trainRDD P0 Q0)]))"
  using assms by (simp add: GD_def epoch_loop_schedule)

subsection \<open>Initialisation\<close>

lemma init_factors_negative:
  assumes "K < 0" shows "init_factors g R K = Inl ValueError"
  using assms by (simp add: init_factors_def np_random_rand_def)

lemma init_factors_succeeds:
  assumes "0 \<le> K" and "0 < fst (shape R)" and "0 < snd (shape R)"
  shows "\<exists>P0 Q0. init_factors g R K = Inr (P0, Q0) \<and>
           int (length P0) = fst (shape R) \<and> int (length Q0) = snd (shape R) \<and>
           (\<forall>r\<in>set (P0 @ Q0). int (length r) = K)"
  using assms by (auto simp: init_factors_def np_random_rand_def)

lemma cell_index_bound:
  fixes i k m d :: nat
  assumes "i < m" and "k < d"
  shows "i * d + k < m * d"
proof -
  have "i * d + k < i * d + d" using assms(2) by simp
  also have "\<dots> = Suc i * d" by simp
  also have "\<dots> \<le> m * d" using assms(1) by (intro mult_le_mono1) simp
  finally show ?thesis .
qed

lemma init_factors_cong:
  assumes "0 \<le> m" and "0 \<le> n"
    and "\<forall>x. int x < (m + n) * K \<longrightarrow> g1 x = g2 x"
    and "shape R = (m, n)"
  shows "init_factors g1 R K = init_factors g2 R K"
proof (cases "K < 0")
  case True
  then show ?thesis by (simp add: init_factors_negative)
next
  case False
  have eq: "nat ((m + n) * K) = nat m * nat K + nat n * nat K"
    using False assms(1,2) by (simp add: nat_mult_distrib nat_add_distrib distrib_right)
  have g: "x < nat m * nat K + nat n * nat K \<Longrightarrow> g1 x = g2 x" for x
    using assms(3) eq by (metis zless_nat_conj of_nat_0_le_iff nat_int not_le nat_less_iff)
  have a: "i < nat m \<Longrightarrow> k < nat K \<Longrightarrow> g1 (i * nat K + k) = g2 (i * nat K + k)" for i k
    using cell_index_bound [of i "nat m" k "nat K"] by (intro g) simp
  have b: "i < nat n \<Longrightarrow> k < nat K \<Longrightarrow>
      g1 (nat m * nat K + (i * nat K + k)) = g2 (nat m * nat K + (i * nat K + k))" for i k
    using cell_index_bound [of i "nat n" k "nat K"] by (intro g) simp
  show ?thesis
    using False assms(1,2,4) a b by (simp add: init_factors_def np_random_rand_def)
qed

section \<open>The claims\<close>

text \<open>
  Claim C1: at every observed entry \<open>(i, j, r)\<close> visited in an epoch the trainer applies
  \<open>p_i \<leftarrow> p_i + \<gamma> (2 e q_j - 2 \<lambda> p_i)\<close> and \<open>q_j \<leftarrow> q_j + \<gamma> (2 e p_i - 2 \<lambda> q_j)\<close> with
  \<open>e = r - p_i \<cdot> q_j\<close>, both computed from the values at the start of the step.

  The source announces the update in a comment and leaves the block open. With the block
  as the source has it, one epoch over the single entry \<open>(1, 1, 5)\<close> returns the factors
  as they were drawn; the rule of the claim would give \<open>0.5047\<close> for both.
\<close>

theorem GD_update_block_open:
  "GD (+) id computeMSE todo_update todo_record rng_half [(1, 1, 5)] 1 1 (1 / 1000) (1 / 20)
     = Inr ([[1 / 2]], [[1 / 2]], [(0, None)])"
  by (simp add: GD_def build_R_def csr_matrix_def sum_duplicates_def nonzero_def
      init_factors_def np_random_rand_def epoch_loop_def todo_update_def todo_record_def
      computeMSE_def rng_half_def)

text \<open>
  Claim C2: for a non-empty dataset \<open>D\<close>, \<^verbatim>\<open>computeMSE\<close> returns the mean over the
  entries of \<open>D\<close> of \<open>(r - p_i \<cdot> q_j)\<^sup>2\<close>.

  The docstring promises the mean square error; the body is open, and the function
  returns \<^verbatim>\<open>None\<close>. At the entry \<open>(1, 1, 5)\<close> with \<open>p = [1]\<close> and \<open>q = [2]\<close> the claim
  gives \<open>9\<close>.
\<close>

theorem computeMSE_stub: "computeMSE [(1, 1, 5)] [[1]] [[2]] = None"
  by (simp add: computeMSE_def)

text \<open>
  Claim C3: the loss history has exactly \<^verbatim>\<open>MAXITER + 1\<close> entries, and the entry of epoch 0
  is the error of the freshly drawn factors, computed before any update.

  The entry of epoch 0 is appended before the loop, from \<^verbatim>\<open>computeMSE\<close> on the drawn
  factors. The block that is to compute and save the error after each pass is open: with
  the source as it is, ten epochs leave the history at its one entry, and that entry holds
  the \<^verbatim>\<open>None\<close> that \<^verbatim>\<open>computeMSE\<close> returns.
\<close>

theorem GD_history_one_entry:
  "GD (+) id computeMSE todo_update todo_record rng_half [(1, 1, 5), (2, 1, 3)] 1 10 (1 / 1000) (1 / 20)
     = Inr ([[1 / 2], [1 / 2]], [[1 / 2]], [(0, None)])"
  by (simp add: GD_def build_R_def csr_matrix_def sum_duplicates_def nonzero_def
      init_factors_def np_random_rand_def epoch_loop_def todo_update_def todo_record_def
      computeMSE_def rng_half_def upt_rec)

text \<open>
  Claim C4: every epoch goes exactly once over every observed training entry, in the
  row-major order of the sparse matrix's nonzero iteration; the error is recorded after
  the full pass; exactly \<^verbatim>\<open>MAXITER\<close> epochs run, with no early stop.

  The loop ranges over \<^verbatim>\<open>zip(I,J)\<close> of \<^verbatim>\<open>R.nonzero()\<close>, not over the entries of the
  training set: an entry rated \<open>0\<close> is not among them. Below, the collection holds
  \<open>(1, 1, 0)\<close> and \<open>(2, 1, 3)\<close>, and the one epoch of the loop executes the update
  block at position \<open>(1, 0)\<close> only.
\<close>

theorem every_entry_visited_counterexample:
  "build_R (+) id [(1, 1, 0), (2, 1, 3)]
     = Inr \<lparr>shape = (2, 1), entries = [((0, 0), 0), ((1, 0), 3)]\<rparr> \<and>
   epoch_loop log_update log_record
     (fst (nonzero \<lparr>shape = (2, 1), entries = [((0, 0), 0), ((1, 0), 3)]\<rparr>))
     (snd (nonzero \<lparr>shape = (2, 1), entries = [((0, 0), 0), ((1, 0), 3)]\<rparr>)) 1 []
     = [Visit 1 0, Record 0]"
  by (simp add: build_R_def csr_matrix_def sum_duplicates_def nonzero_def epoch_loop_def
      log_update_def log_record_def)

text \<open>
  Claim C4, as the code has it: whatever the two open blocks are, a run of \<^verbatim>\<open>GD\<close> that
  gets past the initialisation executes them in the order of \<open>schedule\<close>: for each
  \<open>epoch\<close> from \<open>0\<close> up to \<^verbatim>\<open>MAXITER - 1\<close>, the update block once at each pair of
  \<^verbatim>\<open>zip(I,J)\<close>, then the recording block once. No step leaves the loop early. The pairs
  are in row-major order (by row, then by column) without repetition, and they are the
  positions of the entries that \<^verbatim>\<open>R\<close> stores with a value other than zero. \<^verbatim>\<open>R\<close> stores
  one entry for each position that occurs in the training set, and where the training set
  gives one rating for a position, that rating is the stored value.
\<close>

theorem GD_epoch_schedule:
  assumes "build_R fadd srt trainRDD = Inr R" and "init_factors g R K = Inr (P0, Q0)"
    and "\<forall>es. mset (srt es) = mset es"
  shows "GD fadd srt cmse upd sav g trainRDD K MAXITER GAMMA LAMBDA =
           Inr (fold (run_event (upd R GAMMA LAMBDA) (sav trainRDD))
                  (schedule (zip (fst (nonzero R)) (snd (nonzero R))) MAXITER)
                  (P0, Q0, [(0, cmse trainRDD P0 Q0)])) \<and>
         sorted_wrt (\<lambda>(i, j) (i', j'). i < i' \<or> i = i' \<and> j < j') (zip (fst (nonzero R)) (snd (nonzero R))) \<and>
         distinct (zip (fst (nonzero R)) (snd (nonzero R))) \<and>
         set (zip (fst (nonzero R)) (snd (nonzero R))) =
           {k. \<exists>v. (k, v) \<in> set (entries R) \<and> v \<noteq> 0} \<and>
         distinct (map fst (entries R)) \<and>
         fst ` set (entries R) = pos ` set trainRDD \<and>
         (\<forall>k r. ratings_at trainRDD k = [r] \<longrightarrow> (k, r) \<in> set (entries R))"
proof -
  have "distinct (zip (fst (nonzero R)) (snd (nonzero R)))"
    using visited_sorted [OF assms(1)] by (simp add: strict_sorted_iff)
  moreover have "\<forall>k r. ratings_at trainRDD k = [r] \<longrightarrow> (k, r) \<in> set (entries R)"
    using build_R_single [OF assms(1,3)] by (auto dest: map_of_SomeD)
  ultimately show ?thesis
    using GD_runs_schedule [OF assms(1,2)] row_major_explicit [OF visited_sorted [OF assms(1)]]
      visited_set [of R] build_R_distinct [OF assms(1)] build_R_keys [OF assms(1,3)]
    by blast
qed

theorem GD_epoch_schedule_witness:
  "GD (+) id computeMSE todo_update todo_record rng_half [(2, 1, 3), (1, 2, 4), (1, 1, 5)] 1 2 (1 / 1000) (1 / 20)
     = Inr (fold (run_event (todo_update \<lparr>shape = (2, 2), entries = [((0, 0), 5), ((0, 1), 4), ((1, 0), 3)]\<rparr> (1 / 1000) (1 / 20))
                    (todo_record [(2, 1, 3), (1, 2, 4), (1, 1, 5)]))
              [Visit 0 0, Visit 0 1, Visit 1 0, Record 0, Visit 0 0, Visit 0 1, Visit 1 0, Record 1]
              ([[1 / 2], [1 / 2]], [[1 / 2], [1 / 2]], [(0, computeMSE [(2, 1, 3), (1, 2, 4), (1, 1, 5)] [[1 / 2], [1 / 2]] [[1 / 2], [1 / 2]])]))"
proof -
  have b: "build_R (+) id [(2, 1, 3), (1, 2, 4), (1, 1, 5)]
             = Inr \<lparr>shape = (2, 2), entries = [((0, 0), 5), ((0, 1), 4), ((1, 0), 3)]\<rparr>"
    by (simp add: build_R_def csr_matrix_def sum_duplicates_def less_prod_def)
  have i: "init_factors rng_half \<lparr>shape = (2, 2), entries = [((0, 0), 5), ((0, 1), 4), ((1, 0), 3)]\<rparr> 1
             = Inr ([[1 / 2], [1 / 2]], [[1 / 2], [1 / 2]])"
    by (simp add: init_factors_def np_random_rand_def rng_half_def upt_rec)
  have p: "\<forall>es :: entry list. mset (id es) = mset es" by simp
  have s: "schedule (zip (fst (nonzero \<lparr>shape = (2, 2), entries = [((0, 0), 5), ((0, 1), 4), ((1, 0), 3)]\<rparr>))
                         (snd (nonzero \<lparr>shape = (2, 2), entries = [((0, 0), 5), ((0, 1), 4), ((1, 0), 3)]\<rparr>))) 2
     = [Visit 0 0, Visit 0 1, Visit 1 0, Record 0, Visit 0 0, Visit 0 1, Visit 1 0, Record 1]"
    by (simp add: nonzero_def schedule_def upt_rec)
  show ?thesis
    using GD_epoch_schedule [OF b i p, of computeMSE todo_update todo_record 2 "1 / 1000" "1 / 20"]
    by (simp only: s)
qed

text \<open>
  Claim C5: \<^verbatim>\<open>computeMSE\<close> or the trainer, called with no observed entry, raises
  \<open>EmptyDatasetError\<close> and never returns a silent NaN.

  The source defines no such error. With an empty collection the index arrays are empty
  and the constructor of the sparse matrix raises \<^verbatim>\<open>ValueError\<close>.
\<close>

theorem GD_empty_dataset_counterexample:
  "GD (+) id computeMSE todo_update todo_record rng_half [] 10 50 (1 / 1000) (1 / 20) = Inl ValueError \<and>
   GD (+) id computeMSE todo_update todo_record rng_half [] 10 50 (1 / 1000) (1 / 20) \<noteq> Inl EmptyDatasetError"
  by (simp add: GD_def build_R_def csr_matrix_def)

text \<open>
  Claim C5, as the code has it: \<^verbatim>\<open>GD\<close> on an empty collection ends in the
  \<^verbatim>\<open>ValueError\<close> of the sparse matrix's constructor, whatever its other arguments and
  whatever the open parts are; no factor matrix is drawn and no error value is computed.
\<close>

theorem GD_empty_dataset: "GD fadd srt cmse upd sav g [] K MAXITER GAMMA LAMBDA = Inl ValueError"
  by (simp add: GD_def build_R_empty)

text \<open>
  Claim C6: with \<open>K \<le> 0\<close> the trainer fails with a configuration error before the
  factor matrices are allocated.

  \<^verbatim>\<open>GD\<close> does not look at \<^verbatim>\<open>K\<close> before it passes it to \<^verbatim>\<open>np.random.rand\<close>, and numpy
  accepts a dimension of zero: with \<open>K = 0\<close> the run succeeds, on factors with no column.
\<close>

theorem GD_rank_zero_counterexample:
  "GD (+) id computeMSE todo_update todo_record rng_half [(1, 1, 5)] 0 1 (1 / 1000) (1 / 20)
     = Inr ([[]], [[]], [(0, None)])"
  by (simp add: GD_def build_R_def csr_matrix_def sum_duplicates_def nonzero_def
      init_factors_def np_random_rand_def epoch_loop_def todo_update_def todo_record_def
      computeMSE_def rng_half_def)

text \<open>
  Claim C6, as the code has it: once the sparse matrix is built, a negative \<^verbatim>\<open>K\<close> ends
  the run in the \<^verbatim>\<open>ValueError\<close> of \<^verbatim>\<open>np.random.rand\<close>, at the allocation of \<^verbatim>\<open>P\<close> and
  before the loop; with \<open>K \<ge> 0\<close>, zero included, the factors are drawn with \<^verbatim>\<open>K\<close>
  columns, one row per row and per column of \<^verbatim>\<open>R\<close>, and the loop runs.
\<close>

theorem GD_rank_not_validated:
  assumes "build_R fadd srt trainRDD = Inr R"
  shows "(K < 0 \<longrightarrow> GD fadd srt cmse upd sav g trainRDD K MAXITER GAMMA LAMBDA = Inl ValueError) \<and>
         (0 \<le> K \<longrightarrow>
            (\<exists>P0 Q0. init_factors g R K = Inr (P0, Q0) \<and>
               int (length P0) = fst (shape R) \<and> int (length Q0) = snd (shape R) \<and>
               (\<forall>r\<in>set (P0 @ Q0). int (length r) = K) \<and>
               GD fadd srt cmse upd sav g trainRDD K MAXITER GAMMA LAMBDA =
                 Inr (epoch_loop (upd R GAMMA LAMBDA) (sav trainRDD)
                        (fst (nonzero R)) (snd (nonzero R)) MAXITER
                        (P0, Q0, [(0, cmse trainRDD P0 Q0)]))))"
proof (intro conjI impI)
  assume "K < 0"
  then show "GD fadd srt cmse upd sav g trainRDD K MAXITER GAMMA LAMBDA = Inl ValueError"
    using assms by (simp add: GD_def init_factors_negative)
next
  assume "0 \<le> K"
  then obtain P0 Q0 where i: "init_factors g R K = Inr (P0, Q0)"
    and l: "int (length P0) = fst (shape R)" "int (length Q0) = snd (shape R)"
      "\<forall>r\<in>set (P0 @ Q0). int (length r) = K"
    using init_factors_succeeds build_R_shape_pos [OF assms] by blast
  have "GD fadd srt cmse upd sav g trainRDD K MAXITER GAMMA LAMBDA =
          Inr (epoch_loop (upd R GAMMA LAMBDA) (sav trainRDD)
                 (fst (nonzero R)) (snd (nonzero R)) MAXITER
                 (P0, Q0, [(0, cmse trainRDD P0 Q0)]))"
    using assms i by (simp add: GD_def)
  then show "\<exists>P0 Q0. init_factors g R K = Inr (P0, Q0) \<and>
               int (length P0) = fst (shape R) \<and> int (length Q0) = snd (shape R) \<and>
               (\<forall>r\<in>set (P0 @ Q0). int (length r) = K) \<and>
               GD fadd srt cmse upd sav g trainRDD K MAXITER GAMMA LAMBDA =
                 Inr (epoch_loop (upd R GAMMA LAMBDA) (sav trainRDD)
                        (fst (nonzero R)) (snd (nonzero R)) MAXITER
                        (P0, Q0, [(0, cmse trainRDD P0 Q0)]))"
    using i l by blast
qed

theorem GD_rank_not_validated_witness:
  "GD (+) id computeMSE todo_update todo_record rng_half [(1, 1, 5)] (- 1) 1 (1 / 1000) (1 / 20) = Inl ValueError \<and>
   (\<exists>P0 Q0. init_factors rng_half \<lparr>shape = (1, 1), entries = [((0, 0), 5)]\<rparr> 0 = Inr (P0, Q0) \<and>
      length P0 = 1 \<and> length Q0 = 1)"
proof -
  have b: "build_R (+) id [(1, 1, 5)] = Inr \<lparr>shape = (1, 1), entries = [((0, 0), 5)]\<rparr>"
    by (simp add: build_R_def csr_matrix_def sum_duplicates_def)
  show ?thesis
    using GD_rank_not_validated [OF b, of "- 1" computeMSE todo_update todo_record rng_half 1 "1 / 1000" "1 / 20"]
      GD_rank_not_validated [OF b, of 0 computeMSE todo_update todo_record rng_half 1 "1 / 1000" "1 / 20"]
    by auto
qed

text \<open>
  Claim C7: for vectors \<open>p\<close> and \<open>q\<close> of equal length the predictor returns their dot
  product, without side effects.

  The docstring promises the predicted rating; the body is open, and the function returns
  \<^verbatim>\<open>None\<close>. For user 1 with \<open>p = [1, 2]\<close> and item 1 with \<open>q = [3, 4]\<close> the claim gives
  \<open>11\<close>.
\<close>

theorem predictedRating_stub: "predictedRating (1, 1, 5) [[1, 2]] [[3, 4]] = None"
  by (simp add: predictedRating_def)

text \<open>
  Claim C8: for a fixed training set, fixed parameters and a fixed seed, two runs of the
  trainer return the same factors and the same history.

  \<^verbatim>\<open>GD\<close> has no seed among its arguments and does not seed the generator: the factors
  come from whatever state numpy's global generator is in. Two calls with the same
  arguments, from two states of the generator, return different factors.
\<close>

theorem GD_seed_counterexample:
  "GD (+) id computeMSE todo_update todo_record rng_half [(1, 1, 5)] 1 1 (1 / 1000) (1 / 20) \<noteq>
   GD (+) id computeMSE todo_update todo_record rng_quarter [(1, 1, 5)] 1 1 (1 / 1000) (1 / 20)"
  by (simp add: GD_def build_R_def csr_matrix_def sum_duplicates_def nonzero_def
      init_factors_def np_random_rand_def epoch_loop_def todo_update_def todo_record_def
      computeMSE_def rng_half_def rng_quarter_def)

text \<open>
  Claim C8, as the code has it: with \<open>(M, N)\<close> the shape of \<^verbatim>\<open>R\<close>, the result of \<^verbatim>\<open>GD\<close>
  depends on the generator only through the first \<open>(M + N) * K\<close> numbers it delivers. Two
  runs on the same arguments for which these numbers agree (in particular two runs from
  the same state of the generator) return the same \<^verbatim>\<open>P\<close>, \<^verbatim>\<open>Q\<close> and history.
\<close>

theorem GD_determined_by_draws:
  assumes "build_R fadd srt trainRDD = Inr R"
    and "\<forall>n. int n < (fst (shape R) + snd (shape R)) * K \<longrightarrow> g1 n = g2 n"
  shows "GD fadd srt cmse upd sav g1 trainRDD K MAXITER GAMMA LAMBDA =
         GD fadd srt cmse upd sav g2 trainRDD K MAXITER GAMMA LAMBDA"
proof -
  have "init_factors g1 R K = init_factors g2 R K"
    using build_R_shape_pos [OF assms(1)] assms(2)
    by (intro init_factors_cong [of "fst (shape R)" "snd (shape R)"]) simp_all
  then show ?thesis using assms(1) by (simp add: GD_def)
qed

theorem GD_determined_by_draws_witness:
  "GD (+) id computeMSE todo_update todo_record rng_half [(1, 1, 5)] 1 1 (1 / 1000) (1 / 20) =
   GD (+) id computeMSE todo_update todo_record rng_half_then_quarter [(1, 1, 5)] 1 1 (1 / 1000) (1 / 20)"
proof -
  have b: "build_R (+) id [(1, 1, 5)] = Inr \<lparr>shape = (1, 1), entries = [((0, 0), 5)]\<rparr>"
    by (simp add: build_R_def csr_matrix_def sum_duplicates_def)
  have "\<forall>n. int n < (fst (shape \<lparr>shape = (1, 1), entries = [((0, 0), 5)]\<rparr>) +
                       snd (shape \<lparr>shape = (1, 1), entries = [((0, 0), 5)]\<rparr>)) * 1
          \<longrightarrow> rng_half n = rng_half_then_quarter n"
    by (simp add: rng_half_def rng_half_then_quarter_def)
  then show ?thesis by (rule GD_determined_by_draws [OF b])
qed




text \<open>
  Claim C10: an observed entry whose rating is exactly \<open>0\<close> is skipped by the loop of the
  trainer, since the nonzero iteration of the sparse matrix leaves stored zeros out; it
  gets no update.

  Not when the training set holds another rating for the same \<open>(user, item)\<close> pair: the
  two are summed, and the position is visited if the sum is not zero. Below, the
  collection holds \<open>(1, 1, 0)\<close> and \<open>(1, 1, 3)\<close>; \<^verbatim>\<open>R\<close> stores \<open>3\<close> at the position,
  and the one epoch of the loop executes the update block there.
\<close>

theorem zero_rating_with_duplicate_counterexample:
  "build_R (+) id [(1, 1, 0), (1, 1, 3)] = Inr \<lparr>shape = (1, 1), entries = [((0, 0), 3)]\<rparr> \<and>
   epoch_loop log_update log_record
     (fst (nonzero \<lparr>shape = (1, 1), entries = [((0, 0), 3)]\<rparr>))
     (snd (nonzero \<lparr>shape = (1, 1), entries = [((0, 0), 3)]\<rparr>)) 1 []
     = [Visit 0 0, Record 0]"
  by (simp add: build_R_def csr_matrix_def sum_duplicates_def nonzero_def epoch_loop_def
      log_update_def log_record_def)

text \<open>
  Claim C10, as the code has it: when an entry rated \<open>0\<close> is the only rating that the
  training set gives for its \<open>(user, item)\<close> pair, a run of \<^verbatim>\<open>GD\<close> that gets past the
  initialisation executes its blocks in the order of the schedule over \<^verbatim>\<open>zip(I,J)\<close>,
  whatever the blocks are; the position of the entry is not among these pairs, and no
  execution of the update block is at that position.
\<close>

theorem zero_rating_is_skipped:
  assumes "build_R fadd srt trainRDD = Inr R" and "init_factors g R K = Inr (P0, Q0)"
    and "\<forall>es. mset (srt es) = mset es"
    and "filter (\<lambda>part. pos part = (u - 1, i - 1)) trainRDD = [(u, i, 0)]"
  shows "GD fadd srt cmse upd sav g trainRDD K MAXITER GAMMA LAMBDA =
           Inr (fold (run_event (upd R GAMMA LAMBDA) (sav trainRDD))
                  (schedule (zip (fst (nonzero R)) (snd (nonzero R))) MAXITER)
                  (P0, Q0, [(0, cmse trainRDD P0 Q0)])) \<and>
         (u - 1, i - 1) \<notin> set (zip (fst (nonzero R)) (snd (nonzero R))) \<and>
         Visit (u - 1) (i - 1) \<notin> set (schedule (zip (fst (nonzero R)) (snd (nonzero R))) MAXITER)"
proof -
  have "ratings_at trainRDD (u - 1, i - 1) = [0]"
    using assms(4) by (simp add: ratings_at_def)
  then have "map_of (entries R) (u - 1, i - 1) = Some 0"
    by (rule build_R_single [OF assms(1,3)])
  then have "(u - 1, i - 1) \<notin> set (zip (fst (nonzero R)) (snd (nonzero R)))"
    by (rule visited_stored_zero [OF build_R_distinct [OF assms(1)]])
  then show ?thesis
    using GD_runs_schedule [OF assms(1,2)] by (simp add: schedule_visits)
qed

theorem zero_rating_is_skipped_witness:
  "GD (+) id computeMSE todo_update todo_record rng_half [(1, 1, 0), (1, 2, 4)] 1 2 (1 / 1000) (1 / 20)
     = Inr (fold (run_event (todo_update \<lparr>shape = (1, 2), entries = [((0, 0), 0), ((0, 1), 4)]\<rparr> (1 / 1000) (1 / 20))
                    (todo_record [(1, 1, 0), (1, 2, 4)]))
              [Visit 0 1, Record 0, Visit 0 1, Record 1]
              ([[1 / 2]], [[1 / 2], [1 / 2]], [(0, computeMSE [(1, 1, 0), (1, 2, 4)] [[1 / 2]] [[1 / 2], [1 / 2]])])) \<and>
   Visit 0 0 \<notin> set [Visit 0 1, Record 0, Visit 0 1, Record 1]"
proof -
  have b: "build_R (+) id [(1, 1, 0), (1, 2, 4)]
             = Inr \<lparr>shape = (1, 2), entries = [((0, 0), 0), ((0, 1), 4)]\<rparr>"
    by (simp add: build_R_def csr_matrix_def sum_duplicates_def)
  have i: "init_factors rng_half \<lparr>shape = (1, 2), entries = [((0, 0), 0), ((0, 1), 4)]\<rparr> 1
             = Inr ([[1 / 2]], [[1 / 2], [1 / 2]])"
    by (simp add: init_factors_def np_random_rand_def rng_half_def upt_rec)
  have p: "\<forall>es :: entry list. mset (id es) = mset es" by simp
  have f: "filter (\<lambda>part. pos part = (1 - 1, 1 - 1)) [(1, 1, 0), (1, 2, 4)] = [(1, 1, 0 :: real)]"
    by (simp add: pos_def)
  have s: "schedule (zip (fst (nonzero \<lparr>shape = (1, 2), entries = [((0, 0), 0), ((0, 1), 4)]\<rparr>))
                         (snd (nonzero \<lparr>shape = (1, 2), entries = [((0, 0), 0), ((0, 1), 4)]\<rparr>))) 2
     = [Visit 0 1, Record 0, Visit 0 1, Record 1]"
    by (simp add: nonzero_def schedule_def upt_rec)
  note t = zero_rating_is_skipped [OF b i p f, of computeMSE todo_update todo_record 2 "1 / 1000" "1 / 20",
      unfolded s]
  have "Visit 0 0 \<notin> set [Visit 0 1, Record 0, Visit 0 1, Record 1]" by simp
  then show ?thesis using t by blast
qed

end
